theory Spec2Isabelle
  imports Complex_Main "HOL-Library.AList"
begin

section \<open>The process simulator of agent3.ts\<close>

text \<open>
  A shallow embedding of the simulation core of \<^verbatim>\<open>BPMNOptimizationAgent\<close>
  (\<^verbatim>\<open>src/agent3.ts\<close>): \<^verbatim>\<open>applyScenarioModifications\<close>, \<^verbatim>\<open>simulateCase\<close>,
  \<^verbatim>\<open>simulateProcess\<close>, \<^verbatim>\<open>calculatePerformanceMetrics\<close>, \<^verbatim>\<open>calculateWaitingTimes\<close>
  and \<^verbatim>\<open>median\<close>.

  Conventions of the model.
  \<^item> A JavaScript number that the program reads from its input or computes by addition,
    subtraction and multiplication is an exact rational (\<^typ>\<open>rat\<close>): rounding, overflow
    and the sign of zero are not modelled. The results of divisions and of
    \<^verbatim>\<open>Math.min\<close>/\<^verbatim>\<open>Math.max\<close> are values of \<open>jsnum\<close>, which adds the two infinities and
    NaN, because the program divides by lengths and counts that may be zero.
  \<^item> A \<^verbatim>\<open>Date\<close> is its time value, an integer number of milliseconds; \<^verbatim>\<open>new Date(x)\<close>
    truncates \<open>x\<close> towards zero. The range limit of time values is not modelled.
  \<^item> An object used as a dictionary (\<^verbatim>\<open>resourceUtilization\<close>, \<^verbatim>\<open>cases\<close>, \<^verbatim>\<open>waiting\<close>,
    \<^verbatim>\<open>lastEnd\<close>, \<^verbatim>\<open>utilization\<close>) is an association list in insertion order, written with
    \<^const>\<open>AList.update\<close>, which holds its own properties. Where a key comes from the input
    (a role, a performer, an activity name), a read goes through the prototype chain and
    a write of the key \<^verbatim>\<open>__proto__\<close> is the setter of \<^verbatim>\<open>Object.prototype\<close>: both are
    modelled, see \<open>objectPrototypeKeys\<close>, \<open>ResourceUtil\<close>, \<open>addBusy\<close>, \<open>waitingStep\<close> and
    \<open>utilizationOf\<close>. The keys of \<^verbatim>\<open>cases\<close> and \<^verbatim>\<open>lastEnd\<close> are numbers, which name no
    inherited property. \<^verbatim>\<open>Object.keys\<close> lists keys that are array indices first; the
    model keeps insertion order and no property below depends on the order.
  \<^item> \<^verbatim>\<open>Math.random()\<close> is the next element of a stream \<open>rng :: nat \<Rightarrow> rat\<close>; the
    number of draws made so far is part of the simulation state.
  \<^item> A mutated array or object is returned updated. A function that throws returns the
    exception together with the state it leaves behind.
\<close>

subsection \<open>Data model\<close>

datatype activity_type = Task | Decision | Parallel | Approval

record ActivityDuration =
  d_min :: rat
  d_max :: rat
  d_unit :: string

record ProcessActivity =
  a_id :: string
  a_name :: string
  a_type :: activity_type
  a_performer :: string
  a_duration :: ActivityDuration
  a_cost :: rat
  a_resources :: rat
  a_probability :: rat

record ProcessFlow =
  f_from :: string
  f_to :: string
  f_condition :: "string option"
  f_probability :: rat

record ProcessResource =
  r_role :: string
  r_capacity :: rat
  r_costPerHour :: rat

record ProcessStructure =
  ps_processName :: string
  ps_activities :: "ProcessActivity list"
  ps_flows :: "ProcessFlow list"
  ps_resources :: "ProcessResource list"

record ScenarioModification =
  m_id :: string
  m_duration :: "ActivityDuration option"
  m_cost :: "rat option"
  m_resources :: "rat option"

record Modifications =
  mod_activities :: "ScenarioModification list option"
  mod_resources :: "ProcessResource list option"

record Scenario =
  sc_scenarioName :: string
  sc_description :: "string option"
  sc_modifications :: "Modifications option"

datatype phase = Start | Complete

record SimulationEvent =
  e_caseId :: int
  e_activity :: string
  e_activityId :: string
  e_event :: phase
  e_timestamp :: int
  e_resource :: string
  e_cost :: rat
  e_duration :: "rat option"

datatype jsnum = Fin rat | PInf | NInf | NaN

record ThroughputMetrics =
  t_avg :: jsnum
  t_min :: jsnum
  t_max :: jsnum
  t_median :: jsnum

record CostMetrics =
  c_avg :: jsnum
  c_total :: jsnum

record PerformanceMetrics =
  throughput :: ThroughputMetrics
  cost :: CostMetrics
  waitingTime :: "(string \<times> jsnum) list"
  utilization :: "(string \<times> jsnum) list"
  casesCompleted :: nat

text \<open>The entry \<^verbatim>\<open>{ busy: 0, total: 0, waiting: [] }\<close> of \<^verbatim>\<open>resourceUtilization\<close>.\<close>

record UtilData =
  u_busy :: rat
  u_total :: rat
  u_waiting :: "rat list"

text \<open>The queue item \<^verbatim>\<open>{ activityId, time }\<close>.\<close>

record QueueItem =
  q_activityId :: string
  q_time :: int

text \<open>
  The kinds of exception. Every exception of the code is a \<^verbatim>\<open>TypeError\<close> of the
  runtime: reading \<^verbatim>\<open>activities[0].id\<close> of an empty array, adding a property to a number
  (the class body is strict mode code), and calling \<^verbatim>\<open>push\<close> of a value that has none.
  \<open>ValidationError\<close> is the kind that the specification names for an empty activity
  list; no statement of the code raises it.
\<close>

datatype error = TypeError | ValidationError

text \<open>
  The names of the own properties of \<^verbatim>\<open>Object.prototype\<close>, which every object literal
  inherits. All are functions but \<^verbatim>\<open>__proto__\<close>, an accessor whose getter returns the
  prototype of the object and whose setter replaces it when the new value is an object
  and does nothing when it is a number.
\<close>

definition objectPrototypeKeys :: "string list" where
  "objectPrototypeKeys =
     [''constructor'', ''__defineGetter__'', ''__defineSetter__'', ''hasOwnProperty'',
      ''__lookupGetter__'', ''__lookupSetter__'', ''isPrototypeOf'',
      ''propertyIsEnumerable'', ''toString'', ''valueOf'', ''__proto__'',
      ''toLocaleString'']"

text \<open>
  The object \<^verbatim>\<open>resourceUtilization\<close>: its own properties, and its prototype when the
  assignment of a role named \<^verbatim>\<open>__proto__\<close> has replaced \<^verbatim>\<open>Object.prototype\<close> by an entry
  (\<open>None\<close>: the prototype is \<^verbatim>\<open>Object.prototype\<close>).
\<close>

record ResourceUtil =
  ru_own :: "(string \<times> UtilData) list"
  ru_proto :: "UtilData option"

subsection \<open>JavaScript numbers and truthiness\<close>

text \<open>\<^verbatim>\<open>a / b\<close> for finite \<open>a\<close> and \<open>b\<close>.\<close>

definition js_div :: "rat \<Rightarrow> rat \<Rightarrow> jsnum" where
  "js_div a b =
     (if b = 0 then (if a = 0 then NaN else if 0 < a then PInf else NInf)
      else Fin (a / b))"

text \<open>\<^verbatim>\<open>x * c\<close> for a finite \<open>c\<close>.\<close>

definition js_times :: "jsnum \<Rightarrow> rat \<Rightarrow> jsnum" where
  "js_times x c =
     (case x of
        Fin a \<Rightarrow> Fin (a * c)
      | PInf \<Rightarrow> (if c = 0 then NaN else if 0 < c then PInf else NInf)
      | NInf \<Rightarrow> (if c = 0 then NaN else if 0 < c then NInf else PInf)
      | NaN \<Rightarrow> NaN)"

definition js_finite :: "jsnum \<Rightarrow> bool" where
  "js_finite x = (case x of Fin _ \<Rightarrow> True | _ \<Rightarrow> False)"

text \<open>\<^verbatim>\<open>Math.min(...xs)\<close> and \<^verbatim>\<open>Math.max(...xs)\<close>.\<close>

definition js_min :: "rat list \<Rightarrow> jsnum" where
  "js_min xs = (case xs of [] \<Rightarrow> PInf | y # ys \<Rightarrow> Fin (fold min ys y))"

definition js_max :: "rat list \<Rightarrow> jsnum" where
  "js_max xs = (case xs of [] \<Rightarrow> NInf | y # ys \<Rightarrow> Fin (fold max ys y))"

text \<open>
  \<^verbatim>\<open>x || d\<close> for a number \<open>x\<close> (zero is falsy) and for an optional number
  (\<^verbatim>\<open>undefined\<close> is falsy too).
\<close>

definition num_or :: "rat \<Rightarrow> rat \<Rightarrow> rat" where
  "num_or x d = (if x = 0 then d else x)"

definition opt_num_or :: "rat option \<Rightarrow> rat \<Rightarrow> rat" where
  "opt_num_or x d = (case x of None \<Rightarrow> d | Some v \<Rightarrow> num_or v d)"

text \<open>\<^verbatim>\<open>!flow.condition\<close>: \<^verbatim>\<open>null\<close> and the empty string are falsy.\<close>

definition no_condition :: "string option \<Rightarrow> bool" where
  "no_condition c = (case c of None \<Rightarrow> True | Some s \<Rightarrow> s = [])"

text \<open>The time value of \<^verbatim>\<open>new Date(x)\<close>.\<close>

definition time_clip :: "rat \<Rightarrow> int" where
  "time_clip x = (if 0 \<le> x then \<lfloor>x\<rfloor> else \<lceil>x\<rceil>)"

subsection \<open>applyScenarioModifications\<close>

text \<open>
  \<^verbatim>\<open>
  applyScenarioModifications(activities, modifications) {
    if (!modifications) return activities;
    return activities.map(activity => {
      const mod = modifications.activities?.find(m => m.id === activity.id);
      if (mod) {
        return { ...activity,
          duration: mod.duration || activity.duration,
          cost: mod.cost || activity.cost,
          resources: mod.resources || activity.resources };
      }
      return activity;
    });
  }
  \<close>
\<close>

definition findModification :: "Modifications \<Rightarrow> string \<Rightarrow> ScenarioModification option" where
  "findModification modifications aid =
     (case mod_activities modifications of
        None \<Rightarrow> None
      | Some ms \<Rightarrow> find (\<lambda>m. m_id m = aid) ms)"

definition applyModification :: "ProcessActivity \<Rightarrow> ScenarioModification \<Rightarrow> ProcessActivity" where
  "applyModification activity m =
     activity\<lparr>a_duration := (case m_duration m of None \<Rightarrow> a_duration activity | Some d \<Rightarrow> d),
              a_cost := opt_num_or (m_cost m) (a_cost activity),
              a_resources := opt_num_or (m_resources m) (a_resources activity)\<rparr>"

definition applyScenarioModifications ::
  "ProcessActivity list \<Rightarrow> Modifications option \<Rightarrow> ProcessActivity list" where
  "applyScenarioModifications activities modifications =
     (case modifications of
        None \<Rightarrow> activities
      | Some ms \<Rightarrow>
          map (\<lambda>activity.
                 case findModification ms (a_id activity) of
                   Some m \<Rightarrow> applyModification activity m
                 | None \<Rightarrow> activity)
              activities)"

subsection \<open>simulateCase\<close>

text \<open>
  The state that one case reads and writes: the shared event log and utilization
  accumulator, the visited set of the case, and the number of random draws made.
\<close>

record SimState =
  s_events :: "SimulationEvent list"
  s_resourceUtil :: ResourceUtil
  s_visited :: "string set"
  s_draws :: nat

text \<open>\<^verbatim>\<open>randomBetween(min, max) = min + Math.random() * (max - min)\<close>, on the draw \<open>r\<close>.\<close>

definition randomBetween :: "rat \<Rightarrow> rat \<Rightarrow> rat \<Rightarrow> rat" where
  "randomBetween r lo hi = lo + r * (hi - lo)"

text \<open>
  The loop over \<^verbatim>\<open>nextFlows\<close>:
  \<^verbatim>\<open>
  for (const flow of nextFlows) {
    if (!flow.condition || Math.random() < (flow.probability || 1.0)) {
      queue.push({ activityId: flow.to, time: endTime });
    }
  }
  \<close>
  It returns the items pushed and the new number of draws. \<^verbatim>\<open>||\<close> short-circuits: a
  flow without a condition makes no draw.
\<close>

fun enqueueFlows :: "(nat \<Rightarrow> rat) \<Rightarrow> int \<Rightarrow> ProcessFlow list \<Rightarrow> nat \<Rightarrow> QueueItem list \<times> nat" where
  "enqueueFlows rng endTime [] k = ([], k)"
| "enqueueFlows rng endTime (flow # rest) k =
     (if no_condition (f_condition flow) then
        (let (items, k') = enqueueFlows rng endTime rest k
         in (\<lparr>q_activityId = f_to flow, q_time = endTime\<rparr> # items, k'))
      else
        (let (items, k') = enqueueFlows rng endTime rest (Suc k)
         in if rng k < num_or (f_probability flow) 1
            then (\<lparr>q_activityId = f_to flow, q_time = endTime\<rparr> # items, k')
            else (items, k')))"

text \<open>
  \<^verbatim>\<open>
  if (resourceUtil[activity.performer]) {
    resourceUtil[activity.performer].total += duration;
  }
  \<close>
  The read finds an own entry first. Otherwise it goes through the prototype chain:
  \<^item> when the prototype is an entry, \<^verbatim>\<open>busy\<close> and \<^verbatim>\<open>total\<close> read its numbers, which are
    truthy when not zero, and adding a property to a number throws in strict mode;
    \<^verbatim>\<open>waiting\<close> reads its array and \<^verbatim>\<open>__proto__\<close> reads the entry itself, whose total is
    then increased;
  \<^item> the other names of \<open>objectPrototypeKeys\<close> read a function (or, for \<^verbatim>\<open>__proto__\<close>
    under the default prototype, \<^verbatim>\<open>Object.prototype\<close>), and the update sets a property
    \<^verbatim>\<open>total\<close> of that function, array or prototype object to NaN. This changes no own
    entry and no entry used as prototype; a later read of the key \<^verbatim>\<open>total\<close> that reaches
    \<^verbatim>\<open>Object.prototype\<close> yields NaN, which is falsy like \<^verbatim>\<open>undefined\<close>;
  \<^item> every other name reads \<^verbatim>\<open>undefined\<close>.
\<close>

definition addBusy :: "string \<Rightarrow> rat \<Rightarrow> ResourceUtil \<Rightarrow> error + ResourceUtil" where
  "addBusy performer duration resourceUtil =
     (case map_of (ru_own resourceUtil) performer of
        Some d \<Rightarrow>
          Inr (resourceUtil\<lparr>ru_own := AList.update performer
                                         (d\<lparr>u_total := u_total d + duration\<rparr>)
                                         (ru_own resourceUtil)\<rparr>)
      | None \<Rightarrow>
          (case ru_proto resourceUtil of
             None \<Rightarrow> Inr resourceUtil
           | Some p \<Rightarrow>
               if performer = ''__proto__''
               then Inr (resourceUtil\<lparr>ru_proto := Some (p\<lparr>u_total := u_total p + duration\<rparr>)\<rparr>)
               else if performer = ''total'' \<and> u_total p \<noteq> 0 then Inl TypeError
               else if performer = ''busy'' \<and> u_busy p \<noteq> 0 then Inl TypeError
               else Inr resourceUtil))"

text \<open>
  The two events of an executed activity:
  \<^verbatim>\<open>
  const startEvent = { caseId, activity: activity.name, activityId: activity.id,
    event: 'start', timestamp: new Date(time), resource: activity.performer, cost: 0 };
  const endEvent = { caseId, activity: activity.name, activityId: activity.id,
    event: 'complete', timestamp: endTime, resource: activity.performer,
    cost: activity.cost || 0, duration: duration };
  \<close>
\<close>

definition startEvent :: "int \<Rightarrow> ProcessActivity \<Rightarrow> int \<Rightarrow> SimulationEvent" where
  "startEvent caseId activity time =
     \<lparr>e_caseId = caseId, e_activity = a_name activity, e_activityId = a_id activity,
      e_event = Start, e_timestamp = time, e_resource = a_performer activity,
      e_cost = 0, e_duration = None\<rparr>"

definition endEvent :: "int \<Rightarrow> ProcessActivity \<Rightarrow> int \<Rightarrow> rat \<Rightarrow> SimulationEvent" where
  "endEvent caseId activity endTime duration =
     \<lparr>e_caseId = caseId, e_activity = a_name activity, e_activityId = a_id activity,
      e_event = Complete, e_timestamp = endTime, e_resource = a_performer activity,
      e_cost = num_or (a_cost activity) 0, e_duration = Some duration\<rparr>"

text \<open>
  One iteration of the \<^verbatim>\<open>while\<close> loop, after \<^verbatim>\<open>queue.shift()\<close>: the items it pushes to
  the queue and the new state, or the exception of the accumulator update and the state
  at the throw (both events pushed, the activity visited, no flow followed).
  \<^verbatim>\<open>
  if (visited.has(activityId)) continue;
  const activity = activities.find(a => a.id === activityId);
  if (!activity) continue;
  events.push(startEvent);
  const duration = this.randomBetween(activity.duration.min, activity.duration.max);
  const endTime = new Date(time.getTime() + duration * 60000);
  events.push(endEvent);
  visited.add(activityId);
  if (resourceUtil[activity.performer]) { resourceUtil[activity.performer].total += duration; }
  const nextFlows = flows.filter(f => f.from === activityId);
  for (const flow of nextFlows) { ... }
  \<close>
\<close>

definition processItem ::
  "int \<Rightarrow> ProcessActivity list \<Rightarrow> ProcessFlow list \<Rightarrow> (nat \<Rightarrow> rat) \<Rightarrow> QueueItem \<Rightarrow> SimState
     \<Rightarrow> error \<times> SimState + QueueItem list \<times> SimState" where
  "processItem caseId activities flows rng item st =
     (if q_activityId item \<in> s_visited st then Inr ([], st)
      else
        case find (\<lambda>a. a_id a = q_activityId item) activities of
          None \<Rightarrow> Inr ([], st)
        | Some activity \<Rightarrow>
            (let duration = randomBetween (rng (s_draws st))
                              (d_min (a_duration activity)) (d_max (a_duration activity));
                 endTime = time_clip (of_int (q_time item) + duration * 60000);
                 st1 = \<lparr>s_events = s_events st @ [startEvent caseId activity (q_time item),
                                                  endEvent caseId activity endTime duration],
                        s_resourceUtil = s_resourceUtil st,
                        s_visited = insert (q_activityId item) (s_visited st),
                        s_draws = Suc (s_draws st)\<rparr>
             in case addBusy (a_performer activity) duration (s_resourceUtil st) of
                  Inl e \<Rightarrow> Inl (e, st1)
                | Inr resourceUtil \<Rightarrow>
                    (let nextFlows = filter (\<lambda>f. f_from f = q_activityId item) flows;
                         (items, k) = enqueueFlows rng endTime nextFlows (Suc (s_draws st))
                     in Inr (items, st1\<lparr>s_resourceUtil := resourceUtil, s_draws := k\<rparr>))))"

text \<open>
  The measure of the worklist loop: the length of the queue plus the number of flows
  whose source activity has not been visited yet.
\<close>

definition pendingFlows :: "ProcessFlow list \<Rightarrow> SimState \<Rightarrow> nat" where
  "pendingFlows flows st = length (filter (\<lambda>f. f_from f \<notin> s_visited st) flows)"

lemma enqueueFlows_length: "length (fst (enqueueFlows rng t fs k)) \<le> length fs"
proof (induction fs arbitrary: k)
  case Nil
  show ?case by simp
next
  case (Cons f fs)
  from Cons[of k] Cons[of "Suc k"] show ?case
    by (auto split: prod.splits)
qed

lemma filter_from_split:
  "a \<notin> V \<Longrightarrow>
   length (filter (\<lambda>f. f_from f = a) flows) + length (filter (\<lambda>f. f_from f \<notin> insert a V) flows)
     = length (filter (\<lambda>f. f_from f \<notin> V) flows)"
  by (induction flows) auto

lemma processItem_measure:
  assumes "processItem caseId activities flows rng item st = Inr (items, st')"
  shows "length items + pendingFlows flows st' \<le> pendingFlows flows st"
proof (cases "q_activityId item \<in> s_visited st")
  case True
  with assms show ?thesis by (simp add: processItem_def)
next
  case nv: False
  show ?thesis
  proof (cases "find (\<lambda>a. a_id a = q_activityId item) activities")
    case None
    with nv assms show ?thesis by (simp add: processItem_def)
  next
    case (Some activity)
    define endTime where "endTime = time_clip (of_int (q_time item) + randomBetween (rng (s_draws st))
           (d_min (a_duration activity)) (d_max (a_duration activity)) * 60000)"
    define nextFlows where "nextFlows = filter (\<lambda>f. f_from f = q_activityId item) flows"
    obtain its k where e: "enqueueFlows rng endTime nextFlows (Suc (s_draws st)) = (its, k)"
      by (cases "enqueueFlows rng endTime nextFlows (Suc (s_draws st))")
    from assms nv Some e have i: "items = its"
      and v: "s_visited st' = insert (q_activityId item) (s_visited st)"
      by (auto simp: processItem_def Let_def endTime_def nextFlows_def split: sum.splits)
    have "length its \<le> length nextFlows"
      using enqueueFlows_length[of rng endTime nextFlows "Suc (s_draws st)"] e by simp
    with filter_from_split[OF nv, of flows] i v show ?thesis
      by (simp add: pendingFlows_def nextFlows_def)
  qed
qed

text \<open>
  The worklist loop of \<^verbatim>\<open>simulateCase\<close>:
  \<^verbatim>\<open>
  while (queue.length > 0) {
    const { activityId, time } = queue.shift();
    ... one iteration: processItem ...
  }
  \<close>
  An exception of the iteration leaves the loop.
\<close>

function simLoop ::
  "int \<Rightarrow> ProcessActivity list \<Rightarrow> ProcessFlow list \<Rightarrow> (nat \<Rightarrow> rat) \<Rightarrow> QueueItem list \<Rightarrow> SimState
     \<Rightarrow> error \<times> SimState + SimState" where
  "simLoop caseId activities flows rng [] st = Inr st"
| "simLoop caseId activities flows rng (item # queue) st =
     (case processItem caseId activities flows rng item st of
        Inl failure \<Rightarrow> Inl failure
      | Inr (items, st') \<Rightarrow> simLoop caseId activities flows rng (queue @ items) st')"
  by pat_completeness auto
termination
proof (relation "measure (\<lambda>(caseId, activities, flows, rng, queue, st).
                    length queue + pendingFlows flows st)")
  show "wf (measure (\<lambda>(caseId, activities, flows, rng, queue, st).
              length queue + pendingFlows flows st))"
    by simp
next
  fix caseId activities flows rng item queue st x items st'
  assume "processItem caseId activities flows rng item st = Inr x" and "(items, st') = x"
  then have "processItem caseId activities flows rng item st = Inr (items, st')" by simp
  from processItem_measure[OF this]
  show "((caseId, activities, flows, rng, queue @ items, st'),
         (caseId, activities, flows, rng, item # queue, st))
          \<in> measure (\<lambda>(caseId, activities, flows, rng, queue, st).
                length queue + pendingFlows flows st)"
    by simp
qed


text \<open>
  \<^verbatim>\<open>
  async simulateCase(caseId, activities, flows, startTime, events, resourceUtil, visited) {
    const queue = [{ activityId: activities[0].id, time: startTime }];
    while (queue.length > 0) { ... }
  }
  \<close>
  \<^verbatim>\<open>activities[0]\<close> of an empty array is \<^verbatim>\<open>undefined\<close>, and reading its \<^verbatim>\<open>id\<close> throws,
  before anything is written.
\<close>

definition simulateCase ::
  "int \<Rightarrow> ProcessActivity list \<Rightarrow> ProcessFlow list \<Rightarrow> int \<Rightarrow> (nat \<Rightarrow> rat) \<Rightarrow> SimState
     \<Rightarrow> error \<times> SimState + SimState" where
  "simulateCase caseId activities flows startTime rng st =
     (case activities of
        [] \<Rightarrow> Inl (TypeError, st)
      | first # _ \<Rightarrow>
          simLoop caseId activities flows rng
            [\<lparr>q_activityId = a_id first, q_time = startTime\<rparr>] st)"

subsection \<open>simulateProcess\<close>

text \<open>
  \<^verbatim>\<open>
  for (let caseId = 1; caseId <= numInstances; caseId++) {
    let currentTime = new Date(2024, 0, 1, 8, 0, 0);
    let visitedActivities = new Set();
    await this.simulateCase(caseId, modifiedActivities, processStructure.flows,
      currentTime, events, resourceUtilization, visitedActivities);
  }
  \<close>
  over the list of the case ids still to run. An exception of \<^verbatim>\<open>simulateCase\<close> ends
  the loop.
\<close>

fun simulateCases ::
  "ProcessActivity list \<Rightarrow> ProcessFlow list \<Rightarrow> int \<Rightarrow> (nat \<Rightarrow> rat) \<Rightarrow> int list \<Rightarrow> SimState
     \<Rightarrow> error \<times> SimState + SimState" where
  "simulateCases activities flows startTime rng [] st = Inr st"
| "simulateCases activities flows startTime rng (caseId # rest) st =
     (case simulateCase caseId activities flows startTime rng (st\<lparr>s_visited := {}\<rparr>) of
        Inl failure \<Rightarrow> Inl failure
      | Inr st' \<Rightarrow> simulateCases activities flows startTime rng rest st')"

text \<open>
  \<^verbatim>\<open>
  processStructure.resources.forEach(r => {
    resourceUtilization[r.role] = { busy: 0, total: 0, waiting: [] };
  });
  \<close>
  The assignment creates or overwrites an own property, except for the role
  \<^verbatim>\<open>__proto__\<close>: there it runs the setter of \<^verbatim>\<open>Object.prototype\<close>, which makes the new
  entry the prototype of \<^verbatim>\<open>resourceUtilization\<close> and creates no own property.
\<close>

definition initRole :: "ProcessResource \<Rightarrow> ResourceUtil \<Rightarrow> ResourceUtil" where
  "initRole r u =
     (if r_role r = ''__proto__''
      then u\<lparr>ru_proto := Some \<lparr>u_busy = 0, u_total = 0, u_waiting = []\<rparr>\<rparr>
      else u\<lparr>ru_own := AList.update (r_role r) \<lparr>u_busy = 0, u_total = 0, u_waiting = []\<rparr>
                          (ru_own u)\<rparr>)"

definition initResourceUtilization :: "ProcessResource list \<Rightarrow> ResourceUtil" where
  "initResourceUtilization resources = fold initRole resources \<lparr>ru_own = [], ru_proto = None\<rparr>"

text \<open>
  \<^verbatim>\<open>simulateProcess(processStructure, scenario, numInstances)\<close> returns
  \<^verbatim>\<open>{ events, resourceUtilization }\<close>. The time value of \<^verbatim>\<open>new Date(2024, 0, 1, 8, 0, 0)\<close>
  depends on the time zone of the host, so it is the parameter \<open>startTime\<close>; the
  random stream is the parameter \<open>rng\<close>. An exception of a case leaves the function;
  the failure holds the state at the throw.
\<close>

definition simulateProcess ::
  "int \<Rightarrow> (nat \<Rightarrow> rat) \<Rightarrow> ProcessStructure \<Rightarrow> Scenario \<Rightarrow> int
     \<Rightarrow> error \<times> SimState + SimulationEvent list \<times> ResourceUtil" where
  "simulateProcess startTime rng processStructure scenario numInstances =
     (let resourceUtilization = initResourceUtilization (ps_resources processStructure);
          modifiedActivities =
            applyScenarioModifications (ps_activities processStructure) (sc_modifications scenario)
      in case simulateCases modifiedActivities (ps_flows processStructure) startTime rng
                [1..numInstances]
                \<lparr>s_events = [], s_resourceUtil = resourceUtilization, s_visited = {},
                 s_draws = 0\<rparr> of
           Inl failure \<Rightarrow> Inl failure
         | Inr st \<Rightarrow> Inr (s_events st, s_resourceUtil st))"

subsection \<open>calculatePerformanceMetrics\<close>

text \<open>The entry \<^verbatim>\<open>{ start: null, end: null, cost: 0, activities: [] }\<close> of \<^verbatim>\<open>cases\<close>.\<close>

record CaseInfo =
  ci_start :: "int option"
  ci_end :: "int option"
  ci_cost :: rat
  ci_activities :: "(string \<times> rat option) list"

text \<open>
  The body of \<^verbatim>\<open>events.forEach(event => ...)\<close>:
  \<^verbatim>\<open>
  if (!cases[event.caseId]) {
    cases[event.caseId] = { start: null, end: null, cost: 0, activities: [] };
  }
  if (event.event === 'start' && !cases[event.caseId].start) {
    cases[event.caseId].start = event.timestamp;
  }
  if (event.event === 'complete') {
    cases[event.caseId].end = event.timestamp;
    cases[event.caseId].cost += event.cost;
    cases[event.caseId].activities.push({ name: event.activity, duration: event.duration });
  }
  \<close>
\<close>

definition recordEvent :: "SimulationEvent \<Rightarrow> (int \<times> CaseInfo) list \<Rightarrow> (int \<times> CaseInfo) list" where
  "recordEvent ev cases =
     (let c0 = (case map_of cases (e_caseId ev) of
                  None \<Rightarrow> \<lparr>ci_start = None, ci_end = None, ci_cost = 0, ci_activities = []\<rparr>
                | Some c \<Rightarrow> c);
          c1 = (if e_event ev = Start \<and> ci_start c0 = None
                then c0\<lparr>ci_start := Some (e_timestamp ev)\<rparr> else c0);
          c2 = (if e_event ev = Complete
                then c1\<lparr>ci_end := Some (e_timestamp ev),
                        ci_cost := ci_cost c1 + e_cost ev,
                        ci_activities := ci_activities c1 @ [(e_activity ev, e_duration ev)]\<rparr>
                else c1)
      in AList.update (e_caseId ev) c2 cases)"

definition buildCases :: "SimulationEvent list \<Rightarrow> (int \<times> CaseInfo) list" where
  "buildCases events = fold recordEvent events []"

text \<open>
  \<^verbatim>\<open>
  Object.values(cases).forEach(c => {
    if (c.start && c.end) {
      const throughputTime = (c.end - c.start) / (1000 * 60 * 60);
      throughputTimes.push(throughputTime);
      costs.push(c.cost);
    }
  });
  \<close>
  \<^verbatim>\<open>Object.values\<close> lists integer keys in ascending order and not in insertion order;
  the sums, extrema and median taken of the two arrays do not depend on their order.
\<close>

definition completedCases :: "(int \<times> CaseInfo) list \<Rightarrow> (rat \<times> rat) list" where
  "completedCases cases =
     concat (map (\<lambda>(k, c). case (ci_start c, ci_end c) of
                              (Some s, Some e) \<Rightarrow> [(of_int (e - s) / 3600000, ci_cost c)]
                            | _ \<Rightarrow> [])
                 cases)"

text \<open>
  \<^verbatim>\<open>
  median(arr) {
    const sorted = arr.sort((a, b) => a - b);
    const mid = Math.floor(sorted.length / 2);
    return sorted.length % 2 ? sorted[mid] : (sorted[mid - 1] + sorted[mid]) / 2;
  }
  \<close>
  On the empty array both reads are \<^verbatim>\<open>undefined\<close> and the result is NaN.
\<close>

definition median :: "rat list \<Rightarrow> jsnum" where
  "median arr =
     (let sorted = sort arr; mid = length sorted div 2
      in if length sorted mod 2 \<noteq> 0 then Fin (sorted ! mid)
         else if sorted = [] then NaN
         else Fin ((sorted ! (mid - 1) + sorted ! mid) / 2))"

text \<open>
  \<^verbatim>\<open>calculateWaitingTimes(events)\<close>. \<^verbatim>\<open>events.sort(...)\<close> sorts the array of the caller
  in place (a stable sort by time stamp) and returns that same array, so the function
  returns its result together with the array as it leaves it.
  \<^verbatim>\<open>
  sorted.forEach(event => {
    if (event.event === 'start' && lastEnd[event.caseId]) {
      const wait = (event.timestamp - lastEnd[event.caseId]) / (1000 * 60);
      if (!waiting[event.activity]) waiting[event.activity] = [];
      waiting[event.activity].push(wait);
    }
    if (event.event === 'complete') {
      lastEnd[event.caseId] = event.timestamp;
    }
  });
  \<close>
  \<^verbatim>\<open>waiting[event.activity]\<close> reads through the prototype of \<^verbatim>\<open>waiting\<close>: for an activity
  named like a property of \<^verbatim>\<open>Object.prototype\<close> the value is truthy, no array is created,
  and the call of its \<^verbatim>\<open>push\<close>, which is \<^verbatim>\<open>undefined\<close>, throws.
\<close>

definition waitingStep ::
  "SimulationEvent \<Rightarrow> (string \<times> rat list) list \<times> (int \<times> int) list
     \<Rightarrow> error + (string \<times> rat list) list \<times> (int \<times> int) list" where
  "waitingStep ev acc =
     (let waiting = fst acc; lastEnd = snd acc;
          lastEnd' =
            (if e_event ev = Complete then AList.update (e_caseId ev) (e_timestamp ev) lastEnd
             else lastEnd)
      in if e_event ev = Start then
           (case map_of lastEnd (e_caseId ev) of
              None \<Rightarrow> Inr (waiting, lastEnd')
            | Some le \<Rightarrow>
                if e_activity ev \<in> set objectPrototypeKeys then Inl TypeError
                else
                  Inr (AList.update (e_activity ev)
                         ((case map_of waiting (e_activity ev) of None \<Rightarrow> [] | Some ws \<Rightarrow> ws)
                            @ [of_int (e_timestamp ev - le) / 60000])
                         waiting,
                       lastEnd'))
         else Inr (waiting, lastEnd'))"

text \<open>The \<^verbatim>\<open>forEach\<close> over the sorted events; an exception of the body ends it.\<close>

fun waitingLoop ::
  "SimulationEvent list \<Rightarrow> (string \<times> rat list) list \<times> (int \<times> int) list
     \<Rightarrow> error + (string \<times> rat list) list \<times> (int \<times> int) list" where
  "waitingLoop [] acc = Inr acc"
| "waitingLoop (ev # evs) acc =
     (case waitingStep ev acc of
        Inl e \<Rightarrow> Inl e
      | Inr acc' \<Rightarrow> waitingLoop evs acc')"

definition calculateWaitingTimes ::
  "SimulationEvent list \<Rightarrow> (error + (string \<times> jsnum) list) \<times> SimulationEvent list" where
  "calculateWaitingTimes events =
     (let sorted = sort_key e_timestamp events
      in (case waitingLoop sorted ([], []) of
            Inl e \<Rightarrow> Inl e
          | Inr acc \<Rightarrow>
              Inr (map (\<lambda>(activity, times).
                          (activity, js_div (sum_list times) (of_nat (length times))))
                     (fst acc)),
          sorted))"

text \<open>
  \<^verbatim>\<open>
  Object.entries(resourceUtil).forEach(([role, data]) => {
    const resource = processStructure.resources.find(r => r.role === role);
    const capacity = resource ? resource.capacity : 1;
    utilization[role] = (data.total / (totalSimTime * capacity)) * 100;
  });
  \<close>
  \<^verbatim>\<open>Object.entries\<close> lists the own properties. The assignment of a number to the key
  \<^verbatim>\<open>__proto__\<close> runs the setter of \<^verbatim>\<open>Object.prototype\<close>, which ignores a number.
\<close>

definition roleCapacity :: "ProcessResource list \<Rightarrow> string \<Rightarrow> rat" where
  "roleCapacity resources role =
     (case find (\<lambda>r. r_role r = role) resources of
        Some resource \<Rightarrow> r_capacity resource
      | None \<Rightarrow> 1)"

definition utilizationOf ::
  "ProcessResource list \<Rightarrow> rat \<Rightarrow> string \<times> UtilData \<Rightarrow> (string \<times> jsnum) list
     \<Rightarrow> (string \<times> jsnum) list" where
  "utilizationOf resources totalSimTime entry acc =
     (if fst entry = ''__proto__'' then acc
      else AList.update (fst entry)
             (js_times (js_div (u_total (snd entry))
                          (totalSimTime * roleCapacity resources (fst entry))) 100)
             acc)"

text \<open>
  \<^verbatim>\<open>calculatePerformanceMetrics(events, resourceUtil, processStructure)\<close> returns the
  metrics, or throws what \<^verbatim>\<open>calculateWaitingTimes\<close> throws; the second component is the
  \<^verbatim>\<open>events\<close> array of the caller after the call.
\<close>

definition calculatePerformanceMetrics ::
  "SimulationEvent list \<Rightarrow> ResourceUtil \<Rightarrow> ProcessStructure
     \<Rightarrow> (error + PerformanceMetrics) \<times> SimulationEvent list" where
  "calculatePerformanceMetrics events resourceUtil processStructure =
     (let cases = buildCases events;
          throughputTimes = map fst (completedCases cases);
          costs = map snd (completedCases cases);
          avgThroughput = js_div (sum_list throughputTimes) (of_nat (length throughputTimes));
          avgCost = js_div (sum_list costs) (of_nat (length costs));
          (waitingResult, events') = calculateWaitingTimes events
      in case waitingResult of
           Inl e \<Rightarrow> (Inl e, events')
         | Inr waitingTimes \<Rightarrow>
             (let totalSimTime = 8 * 60 * of_nat (length cases) / 5;
                  utilizationMap =
                    fold (utilizationOf (ps_resources processStructure) totalSimTime)
                      (ru_own resourceUtil) []
              in (Inr \<lparr>throughput = \<lparr>t_avg = avgThroughput, t_min = js_min throughputTimes,
                                      t_max = js_max throughputTimes,
                                      t_median = median throughputTimes\<rparr>,
                       cost = \<lparr>c_avg = avgCost, c_total = Fin (sum_list costs)\<rparr>,
                       waitingTime = waitingTimes,
                       utilization = utilizationMap,
                       casesCompleted = length cases\<rparr>,
                  events')))"

subsection \<open>The counting the specification describes\<close>

text \<open>
  The completed-case count in the words of the specification: the number of distinct
  case ids that have at least one start event and at least one complete event.
\<close>

definition casesWithStartAndEnd :: "SimulationEvent list \<Rightarrow> nat" where
  "casesWithStartAndEnd events =
     length (remdups (filter
       (\<lambda>c. list_ex (\<lambda>e. e_caseId e = c \<and> e_event e = Start) events \<and>
            list_ex (\<lambda>e. e_caseId e = c \<and> e_event e = Complete) events)
       (map e_caseId events)))"

subsection \<open>Example inputs\<close>

text \<open>
  The process of the specification's scenario example: \<open>A1\<close> (10 minutes, cost 5)
  followed by \<open>A2\<close> (5 minutes, cost 3), with one flow whose condition and probability
  are parameters.
\<close>

definition exampleA1 :: ProcessActivity where
  "exampleA1 = \<lparr>a_id = ''A1'', a_name = ''A1'', a_type = Task, a_performer = ''Clerk'',
                 a_duration = \<lparr>d_min = 10, d_max = 10, d_unit = ''minutes''\<rparr>,
                 a_cost = 5, a_resources = 1, a_probability = 1\<rparr>"

definition exampleA2 :: ProcessActivity where
  "exampleA2 = \<lparr>a_id = ''A2'', a_name = ''A2'', a_type = Task, a_performer = ''Clerk'',
                 a_duration = \<lparr>d_min = 5, d_max = 5, d_unit = ''minutes''\<rparr>,
                 a_cost = 3, a_resources = 1, a_probability = 1\<rparr>"

definition exampleProcess :: "string option \<Rightarrow> rat \<Rightarrow> ProcessStructure" where
  "exampleProcess c p =
     \<lparr>ps_processName = ''Example'', ps_activities = [exampleA1, exampleA2],
      ps_flows = [\<lparr>f_from = ''A1'', f_to = ''A2'', f_condition = c, f_probability = p\<rparr>],
      ps_resources = [\<lparr>r_role = ''Clerk'', r_capacity = 1, r_costPerHour = 25\<rparr>]\<rparr>"

definition baseline :: Scenario where
  "baseline = \<lparr>sc_scenarioName = ''Baseline'', sc_description = None,
                sc_modifications = None\<rparr>"

text \<open>The event log that the specification expects of one case started at \<open>t0\<close>.\<close>

definition expectedLog :: "int \<Rightarrow> SimulationEvent list" where
  "expectedLog t0 =
     [\<lparr>e_caseId = 1, e_activity = ''A1'', e_activityId = ''A1'', e_event = Start,
       e_timestamp = t0, e_resource = ''Clerk'', e_cost = 0, e_duration = None\<rparr>,
      \<lparr>e_caseId = 1, e_activity = ''A1'', e_activityId = ''A1'', e_event = Complete,
       e_timestamp = t0 + 10 * 60000, e_resource = ''Clerk'', e_cost = 5,
       e_duration = Some 10\<rparr>,
      \<lparr>e_caseId = 1, e_activity = ''A2'', e_activityId = ''A2'', e_event = Start,
       e_timestamp = t0 + 10 * 60000, e_resource = ''Clerk'', e_cost = 0,
       e_duration = None\<rparr>,
      \<lparr>e_caseId = 1, e_activity = ''A2'', e_activityId = ''A2'', e_event = Complete,
       e_timestamp = t0 + 15 * 60000, e_resource = ''Clerk'', e_cost = 3,
       e_duration = Some 5\<rparr>]"

text \<open>A process with no activity.\<close>

definition emptyProcess :: ProcessStructure where
  "emptyProcess = \<lparr>ps_processName = ''Empty'', ps_activities = [], ps_flows = [],
                    ps_resources = []\<rparr>"

text \<open>A scenario that sets the cost and the resource units of \<open>A1\<close> to zero.\<close>

definition zeroCost :: Modifications where
  "zeroCost = \<lparr>mod_activities = Some [\<lparr>m_id = ''A1'', m_duration = None,
                                         m_cost = Some 0, m_resources = Some 0\<rparr>],
                mod_resources = None\<rparr>"

text \<open>A log of one case that started and never completed.\<close>

definition startOnlyLog :: "SimulationEvent list" where
  "startOnlyLog =
     [\<lparr>e_caseId = 1, e_activity = ''A1'', e_activityId = ''A1'', e_event = Start,
       e_timestamp = 0, e_resource = ''Clerk'', e_cost = 0, e_duration = None\<rparr>]"

text \<open>
  The example activities in a graph with two flows into \<open>A2\<close>, a cycle back to \<open>A1\<close>
  and a flow to an activity that does not exist.
\<close>

definition cyclicProcess :: ProcessStructure where
  "cyclicProcess =
     \<lparr>ps_processName = ''Cyclic'', ps_activities = [exampleA1, exampleA2],
      ps_flows = [\<lparr>f_from = ''A1'', f_to = ''A2'', f_condition = None, f_probability = 1\<rparr>,
                  \<lparr>f_from = ''A1'', f_to = ''A2'', f_condition = None, f_probability = 1\<rparr>,
                  \<lparr>f_from = ''A2'', f_to = ''A1'', f_condition = None, f_probability = 1\<rparr>,
                  \<lparr>f_from = ''A2'', f_to = ''A9'', f_condition = None, f_probability = 1\<rparr>],
      ps_resources = [\<lparr>r_role = ''Clerk'', r_capacity = 1, r_costPerHour = 25\<rparr>]\<rparr>"




text \<open>The initial state of a simulation run without declared resources.\<close>

definition emptyState :: SimState where
  "emptyState = \<lparr>s_events = [], s_resourceUtil = \<lparr>ru_own = [], ru_proto = None\<rparr>,
                  s_visited = {}, s_draws = 0\<rparr>"







subsection \<open>What a flow contributes to the traversal\<close>

text \<open>
  The part of a flow that \<^verbatim>\<open>simulateCase\<close> reads: its end points, its probability, and
  whether its condition is falsy.
\<close>

definition flowGate :: "ProcessFlow \<Rightarrow> string \<times> string \<times> rat \<times> bool" where
  "flowGate f = (f_from f, f_to f, f_probability f, no_condition (f_condition f))"

subsection \<open>Reading an event log\<close>

text \<open>
  The activity ids of the start events of case \<open>c\<close>, in the order of the log.
\<close>

definition startIds :: "int \<Rightarrow> SimulationEvent list \<Rightarrow> string list" where
  "startIds c evs = map e_activityId (filter (\<lambda>e. e_caseId e = c \<and> e_event e = Start) evs)"



section \<open>Properties\<close>

subsection \<open>Helper facts\<close>

lemmas sim_defs = simulateProcess_def exampleProcess_def baseline_def
  applyScenarioModifications_def initResourceUtilization_def initRole_def simulateCase_def
  exampleA1_def exampleA2_def processItem_def startEvent_def endEvent_def Let_def
  randomBetween_def addBusy_def num_or_def no_condition_def

lemmas metric_defs = calculatePerformanceMetrics_def buildCases_def recordEvent_def
  completedCases_def js_div_def js_min_def js_max_def median_def calculateWaitingTimes_def
  waitingStep_def objectPrototypeKeys_def Let_def utilizationOf_def roleCapacity_def
  js_times_def

lemma time_clip_of_int: "time_clip (of_int t) = t"
  by (simp add: time_clip_def)

lemma example_events:
  assumes "rng 1 < 1"
  shows "simulateProcess t0 rng (exampleProcess c 1) baseline 1 =
           Inr (expectedLog t0,
                \<lparr>ru_own = [(''Clerk'', \<lparr>u_busy = 0, u_total = 15, u_waiting = []\<rparr>)],
                 ru_proto = None\<rparr>)"
proof -
  have a: "of_int t0 + (600000::rat) = of_int (t0 + 600000)" by simp
  have b: "of_int (t0 + 600000) + (300000::rat) = of_int (t0 + 900000)" by simp
  show ?thesis
    using assms
    by (simp add: sim_defs expectedLog_def a b time_clip_of_int del: of_int_add)
qed

lemma example_metrics:
  "calculatePerformanceMetrics (expectedLog t0) u ps =
     (Inr \<lparr>throughput = \<lparr>t_avg = Fin (1 / 4), t_min = Fin (1 / 4), t_max = Fin (1 / 4),
                          t_median = Fin (1 / 4)\<rparr>,
           cost = \<lparr>c_avg = Fin 8, c_total = Fin 8\<rparr>,
           waitingTime = [(''A2'', Fin 0)],
           utilization = fold (utilizationOf (ps_resources ps) 96) (ru_own u) [],
           casesCompleted = 1\<rparr>,
      expectedLog t0)"
  by (simp add: calculatePerformanceMetrics_def expectedLog_def buildCases_def
      recordEvent_def completedCases_def js_div_def js_min_def js_max_def median_def
      calculateWaitingTimes_def waitingStep_def objectPrototypeKeys_def Let_def)

lemma applyScenarioModifications_Nil: "applyScenarioModifications [] ms = []"
  by (simp add: applyScenarioModifications_def split: option.splits)

lemma applyScenarioModifications_length:
  "length (applyScenarioModifications activities ms) = length activities"
  by (simp add: applyScenarioModifications_def split: option.splits)

lemma applyScenarioModifications_ids:
  "map a_id (applyScenarioModifications activities ms) = map a_id activities"
  by (auto simp: applyScenarioModifications_def applyModification_def split: option.splits)

lemma applyScenarioModifications_nth:
  assumes "i < length activities"
  shows "applyScenarioModifications activities (Some ms) ! i =
           (case findModification ms (a_id (activities ! i)) of
              Some m \<Rightarrow> applyModification (activities ! i) m
            | None \<Rightarrow> activities ! i)"
  using assms by (simp add: applyScenarioModifications_def)

text \<open>The rule for one flow.\<close>

lemma no_condition_iff: "no_condition c \<longleftrightarrow> c = None \<or> c = Some []"
  by (simp add: no_condition_def split: option.splits)

lemma enqueueFlows_unconditioned:
  assumes "f_condition f = None \<or> f_condition f = Some []"
  shows "enqueueFlows rng t (f # fs) k =
           (\<lparr>q_activityId = f_to f, q_time = t\<rparr> # fst (enqueueFlows rng t fs k),
            snd (enqueueFlows rng t fs k))"
  using assms by (auto simp: no_condition_iff split: prod.splits)

lemma enqueueFlows_conditioned:
  assumes "f_condition f \<noteq> None" and "f_condition f \<noteq> Some []"
  shows "enqueueFlows rng t (f # fs) k =
           (if rng k < (if f_probability f = 0 then 1 else f_probability f)
            then \<lparr>q_activityId = f_to f, q_time = t\<rparr> # fst (enqueueFlows rng t fs (Suc k))
            else fst (enqueueFlows rng t fs (Suc k)),
            snd (enqueueFlows rng t fs (Suc k)))"
  using assms by (auto simp: no_condition_iff num_or_def split: prod.splits)

lemma enqueueFlows_gate:
  "map flowGate fs = map flowGate gs \<Longrightarrow> enqueueFlows rng t fs k = enqueueFlows rng t gs k"
proof (induction fs arbitrary: gs k)
  case Nil
  then show ?case by simp
next
  case (Cons f fs)
  then obtain g gs' where g: "gs = g # gs'" "flowGate f = flowGate g"
      "map flowGate fs = map flowGate gs'"
    by (cases gs) auto
  from Cons.IH[OF g(3)] g(1,2) show ?case
    by (auto simp: flowGate_def split: prod.splits)
qed

lemma filter_gate:
  "map flowGate fs = map flowGate gs \<Longrightarrow>
   map flowGate (filter (\<lambda>f. f_from f = a) fs) = map flowGate (filter (\<lambda>f. f_from f = a) gs)"
proof (induction fs arbitrary: gs)
  case Nil
  then show ?case by simp
next
  case (Cons f fs)
  then obtain g gs' where g: "gs = g # gs'" "flowGate f = flowGate g"
      "map flowGate fs = map flowGate gs'"
    by (cases gs) auto
  from Cons.IH[OF g(3)] g(1,2) show ?case
    by (auto simp: flowGate_def)
qed

lemma processItem_gate:
  assumes "map flowGate fs = map flowGate gs"
  shows "processItem c acts fs rng item st = processItem c acts gs rng item st"
  by (simp add: processItem_def Let_def enqueueFlows_gate[OF filter_gate[OF assms]]
      split: option.splits sum.splits)

lemma simLoop_gate:
  assumes "map flowGate fs = map flowGate gs"
  shows "simLoop c acts fs rng q st = simLoop c acts gs rng q st"
  using assms
proof (induction c acts fs rng q st rule: simLoop.induct)
  case (1 caseId activities flows rng st)
  show ?case by simp
next
  case (2 caseId activities flows rng item queue st)
  have pg: "processItem caseId activities gs rng item st =
              processItem caseId activities flows rng item st"
    by (rule processItem_gate[OF "2.prems", symmetric])
  show ?case
  proof (cases "processItem caseId activities flows rng item st")
    case (Inl failure)
    with pg have "processItem caseId activities gs rng item st = Inl failure" by simp
    with Inl show ?thesis by simp
  next
    case (Inr x)
    obtain items st' where x: "x = (items, st')" by (cases x)
    from pg Inr x have "processItem caseId activities gs rng item st = Inr (items, st')"
      by simp
    with "2.IH"[OF Inr x[symmetric] "2.prems"] Inr x show ?thesis by simp
  qed
qed

lemma simulateCase_gate:
  assumes "map flowGate fs = map flowGate gs"
  shows "simulateCase c acts fs t0 rng st = simulateCase c acts gs t0 rng st"
  by (simp add: simulateCase_def simLoop_gate[OF assms] del: simLoop.simps split: list.splits)

lemma simulateCases_gate:
  assumes "map flowGate fs = map flowGate gs"
  shows "simulateCases acts fs t0 rng cs st = simulateCases acts gs t0 rng cs st"
  by (induction cs arbitrary: st)
     (simp_all add: simulateCase_gate[OF assms] split: sum.splits)





text \<open>The two outcomes of an iteration of the worklist loop that does not throw.\<close>

lemma processItem_cases:
  assumes "processItem c acts fl rng item st = Inr (items, st')"
  obtains (skip) "st' = st" "items = []"
  | (run) activity duration endTime where
      "q_activityId item \<notin> s_visited st"
      "find (\<lambda>a. a_id a = q_activityId item) acts = Some activity"
      "a_id activity = q_activityId item"
      "s_events st' = s_events st @ [startEvent c activity (q_time item),
                                      endEvent c activity endTime duration]"
      "addBusy (a_performer activity) duration (s_resourceUtil st) = Inr (s_resourceUtil st')"
      "s_visited st' = insert (q_activityId item) (s_visited st)"
proof (cases "q_activityId item \<in> s_visited st")
  case True
  with assms skip show ?thesis by (simp add: processItem_def)
next
  case nv: False
  show ?thesis
  proof (cases "find (\<lambda>a. a_id a = q_activityId item) acts")
    case None
    with nv assms skip show ?thesis by (simp add: processItem_def)
  next
    case (Some activity)
    then have "a_id activity = q_activityId item"
      by (auto simp: find_Some_iff)
    with assms nv Some run[of activity] show ?thesis
      by (auto simp: processItem_def Let_def split: prod.splits sum.splits)
  qed
qed

lemma startIds_append: "startIds c (xs @ ys) = startIds c xs @ startIds c ys"
  by (simp add: startIds_def)

lemma startIds_pair:
  "startIds c' [startEvent c a t, endEvent c a t' d] = (if c' = c then [a_id a] else [])"
  by (simp add: startIds_def startEvent_def endEvent_def)

lemma e_caseId_events:
  "e_caseId (startEvent c a t) = c" "e_caseId (endEvent c a t' d) = c"
  by (simp_all add: startEvent_def endEvent_def)

lemma simLoop_other_cases:
  "simLoop c acts fl rng q st = Inr st1 \<Longrightarrow> c' \<noteq> c \<Longrightarrow>
   filter (\<lambda>e. e_caseId e = c') (s_events st1) = filter (\<lambda>e. e_caseId e = c') (s_events st)"
proof (induction c acts fl rng q st rule: simLoop.induct)
  case (1 caseId activities flows rng st)
  then show ?case by simp
next
  case (2 caseId activities flows rng item queue st)
  from "2.prems"(1) obtain items st'
    where p: "processItem caseId activities flows rng item st = Inr (items, st')"
      and r: "simLoop caseId activities flows rng (queue @ items) st' = Inr st1"
    by (auto split: sum.splits)
  have "filter (\<lambda>e. e_caseId e = c') (s_events st') = filter (\<lambda>e. e_caseId e = c') (s_events st)"
    using p
  proof (cases rule: processItem_cases)
    case skip
    then show ?thesis by simp
  next
    case (run activity duration endTime)
    with "2.prems"(2) show ?thesis by (auto simp: e_caseId_events)
  qed
  with "2.IH"[OF p refl r "2.prems"(2)] show ?case by simp
qed

lemma simLoop_single_visit:
  "simLoop c acts fl rng q st = Inr st1 \<Longrightarrow>
   set (startIds c (s_events st)) \<subseteq> s_visited st \<Longrightarrow> distinct (startIds c (s_events st)) \<Longrightarrow>
   distinct (startIds c (s_events st1))"
proof (induction c acts fl rng q st rule: simLoop.induct)
  case (1 caseId activities flows rng st)
  then show ?case by simp
next
  case (2 caseId activities flows rng item queue st)
  from "2.prems"(1) obtain items st'
    where p: "processItem caseId activities flows rng item st = Inr (items, st')"
      and r: "simLoop caseId activities flows rng (queue @ items) st' = Inr st1"
    by (auto split: sum.splits)
  have "set (startIds caseId (s_events st')) \<subseteq> s_visited st' \<and>
        distinct (startIds caseId (s_events st'))"
    using p
  proof (cases rule: processItem_cases)
    case skip
    with "2.prems" show ?thesis by simp
  next
    case (run activity duration endTime)
    with "2.prems" show ?thesis
      by (auto simp: startIds_append startIds_pair)
  qed
  with "2.IH"[OF p refl r] show ?case by simp
qed

lemma startIds_caseEvents:
  "startIds c evs =
     map e_activityId (filter (\<lambda>e. e_event e = Start) (filter (\<lambda>e. e_caseId e = c) evs))"
  by (simp add: startIds_def conj_commute)

lemma simulateCases_step:
  assumes "simulateCases acts fl t0 rng (c # cs) st = Inr st'"
  obtains first rest st1 where "acts = first # rest"
    "simLoop c acts fl rng [\<lparr>q_activityId = a_id first, q_time = t0\<rparr>] (st\<lparr>s_visited := {}\<rparr>)
       = Inr st1"
    "simulateCases acts fl t0 rng cs st1 = Inr st'"
  using assms
  by (cases acts) (auto simp: simulateCase_def split: sum.splits simp del: simLoop.simps)

lemma simulateCases_single_visit:
  assumes "simulateCases acts fl t0 rng cs st = Inr st'"
    and "distinct cs"
    and "\<forall>c \<in> set cs. filter (\<lambda>e. e_caseId e = c) (s_events st) = []"
    and "\<forall>c. distinct (startIds c (s_events st))"
  shows "\<forall>c. distinct (startIds c (s_events st'))"
  using assms
proof (induction cs arbitrary: st)
  case Nil
  then show ?case by simp
next
  case (Cons c cs)
  from Cons.prems(1) obtain first rest st1 where acts: "acts = first # rest"
    and loop: "simLoop c acts fl rng [\<lparr>q_activityId = a_id first, q_time = t0\<rparr>]
                 (st\<lparr>s_visited := {}\<rparr>) = Inr st1"
    and rest: "simulateCases acts fl t0 rng cs st1 = Inr st'"
    by (rule simulateCases_step)
  have other: "filter (\<lambda>e. e_caseId e = c') (s_events st1) = filter (\<lambda>e. e_caseId e = c') (s_events st)"
    if "c' \<noteq> c" for c'
    using simLoop_other_cases[OF loop that] by simp
  from Cons.prems(3) have "startIds c (s_events st) = []"
    by (simp add: startIds_caseEvents)
  then have this_case: "distinct (startIds c (s_events st1))"
    using simLoop_single_visit[OF loop] by simp
  have a: "\<forall>c' \<in> set cs. filter (\<lambda>e. e_caseId e = c') (s_events st1) = []"
  proof
    fix c'
    assume m: "c' \<in> set cs"
    with Cons.prems(2) have "c' \<noteq> c" by auto
    from other[OF this] Cons.prems(3) m
    show "filter (\<lambda>e. e_caseId e = c') (s_events st1) = []" by simp
  qed
  have b: "\<forall>c'. distinct (startIds c' (s_events st1))"
  proof
    fix c'
    show "distinct (startIds c' (s_events st1))"
    proof (cases "c' = c")
      case True
      with this_case show ?thesis by simp
    next
      case False
      from other[OF False] Cons.prems(4) show ?thesis
        by (simp add: startIds_caseEvents)
    qed
  qed
  from Cons.prems(2) have "distinct cs" by simp
  from Cons.IH[OF rest this a b] show ?case .
qed














lemma metrics_fields:
  assumes "calculatePerformanceMetrics evs u ps = (Inr m, evs')"
  shows "utilization m =
     fold (utilizationOf (ps_resources ps) (8 * 60 * of_nat (length (buildCases evs)) / 5))
       (ru_own u) []"
    and "casesCompleted m = length (buildCases evs)"
  using assms
  by (auto simp: calculatePerformanceMetrics_def Let_def split: prod.splits sum.splits)

text \<open>
  The two places where a key of the input meets \<^verbatim>\<open>Object.prototype\<close> in the metrics: a
  wait recorded for an activity named \<^verbatim>\<open>constructor\<close> throws, after the log is sorted, and
  an own key \<^verbatim>\<open>__proto__\<close> of the accumulator yields no utilization figure.
\<close>

lemma waiting_prototype_name_throws:
  "calculatePerformanceMetrics (map (\<lambda>e. e\<lparr>e_activity := ''constructor''\<rparr>) (expectedLog 0))
     u ps =
   (Inl TypeError, map (\<lambda>e. e\<lparr>e_activity := ''constructor''\<rparr>) (expectedLog 0))"
  by (simp add: calculatePerformanceMetrics_def calculateWaitingTimes_def waitingStep_def
      objectPrototypeKeys_def expectedLog_def Let_def)

lemma utilization_proto_key_ignored:
  "fold (utilizationOf rs T) [(''__proto__'', d), (''Clerk'', d)] [] =
     [(''Clerk'', js_times (js_div (u_total d) (T * roleCapacity rs ''Clerk'')) 100)]"
  by (simp add: utilizationOf_def)

text \<open>The case table of the metrics.\<close>

lemma recordEvent_keys:
  "fst ` set (recordEvent ev cases) = insert (e_caseId ev) (fst ` set cases)"
  "distinct (map fst cases) \<Longrightarrow> distinct (map fst (recordEvent ev cases))"
  by (simp_all add: recordEvent_def Let_def AList.dom_update AList.distinct_update)

lemma buildCases_keys:
  "fst ` set (fold recordEvent evs acc) = fst ` set acc \<union> e_caseId ` set evs \<and>
   (distinct (map fst acc) \<longrightarrow> distinct (map fst (fold recordEvent evs acc)))"
  by (induction evs arbitrary: acc) (auto simp: recordEvent_keys)

lemma casesCompleted_counts_case_ids:
  assumes "calculatePerformanceMetrics evs u ps = (Inr m, evs')"
  shows "casesCompleted m = card (e_caseId ` set evs)"
proof -
  from buildCases_keys[of evs "[]"]
  have k: "set (map fst (buildCases evs)) = e_caseId ` set evs"
    and d: "distinct (map fst (buildCases evs))"
    by (simp_all add: buildCases_def)
  from distinct_card[OF d] k have "length (buildCases evs) = card (e_caseId ` set evs)"
    by simp
  then show ?thesis by (simp add: metrics_fields[OF assms])
qed

subsection \<open>The scenario example\<close>

text \<open>
  Claim C5. For the process \<open>A1\<close> (duration min = max = 10, cost 5) connected by a
  single flow of probability 1.0 to \<open>A2\<close> (duration min = max = 5, cost 3), one simulated
  case starting at \<open>t0\<close> produces exactly the four events \<open>A1\<close> start at \<open>t0\<close>, \<open>A1\<close>
  complete at \<open>t0\<close> + 10 minutes with cost 5 and duration 10, \<open>A2\<close> start at \<open>t0\<close> + 10
  minutes, \<open>A2\<close> complete at \<open>t0\<close> + 15 minutes with cost 3 and duration 5; the metrics of
  that log are computed without an exception and have throughput average 0.25 hours,
  cost average 8, cost total 8 and one completed case. This holds for every start time,
  every condition label of the flow and every random stream whose draws lie in the range
  of \<^verbatim>\<open>Math.random()\<close>.
\<close>

theorem scenario_example:
  assumes "\<forall>k. 0 \<le> rng k \<and> rng k < 1"
  shows "\<exists>u m evs'.
           simulateProcess t0 rng (exampleProcess c 1) baseline 1 = Inr (expectedLog t0, u) \<and>
           calculatePerformanceMetrics (expectedLog t0) u (exampleProcess c 1) = (Inr m, evs') \<and>
           t_avg (throughput m) = Fin (1 / 4) \<and>
           c_avg (cost m) = Fin 8 \<and>
           c_total (cost m) = Fin 8 \<and>
           casesCompleted m = 1"
proof -
  from assms have "rng 1 < 1" by simp
  then have "simulateProcess t0 rng (exampleProcess c 1) baseline 1 =
           Inr (expectedLog t0,
                \<lparr>ru_own = [(''Clerk'', \<lparr>u_busy = 0, u_total = 15, u_waiting = []\<rparr>)],
                 ru_proto = None\<rparr>)"
    by (rule example_events)
  then show ?thesis
    by (simp add: example_metrics)
qed

theorem scenario_example_witness:
  "(\<forall>k::nat. (0::rat) \<le> 1 / 2 \<and> (1 / 2 :: rat) < 1) \<and>
   (\<exists>u m evs'.
      simulateProcess 1704096000000 (\<lambda>_. 1 / 2) (exampleProcess (Some ''approved'') 1)
        baseline 1 = Inr (expectedLog 1704096000000, u) \<and>
      calculatePerformanceMetrics (expectedLog 1704096000000) u
        (exampleProcess (Some ''approved'') 1) = (Inr m, evs') \<and>
      t_avg (throughput m) = Fin (1 / 4) \<and>
      c_avg (cost m) = Fin 8 \<and>
      c_total (cost m) = Fin 8 \<and>
      casesCompleted m = 1)"
proof -
  have h: "\<forall>k::nat. (0::rat) \<le> (\<lambda>_. 1 / 2) k \<and> (\<lambda>_. 1 / 2 :: rat) k < 1" by simp
  from scenario_example[OF h, of 1704096000000 "Some ''approved''"] show ?thesis by simp
qed

subsection \<open>Conditions and traversal\<close>

text \<open>
  Claim C1, as stated, fails: the traversal reads the condition of a flow. With the draws
  all equal to 3/4, the example process whose flow has probability 1/2 runs \<open>A2\<close> when
  the flow has no condition and stops after \<open>A1\<close> when the flow has the condition label
  \<open>approved\<close>; the two graphs differ in that label only.
\<close>

theorem condition_label_counterexample:
  "simulateProcess 0 (\<lambda>_. 3 / 4) (exampleProcess None (1 / 2)) baseline 1
     = Inr (expectedLog 0,
            \<lparr>ru_own = [(''Clerk'', \<lparr>u_busy = 0, u_total = 15, u_waiting = []\<rparr>)],
             ru_proto = None\<rparr>) \<and>
   simulateProcess 0 (\<lambda>_. 3 / 4) (exampleProcess (Some ''approved'') (1 / 2)) baseline 1
     = Inr (take 2 (expectedLog 0),
            \<lparr>ru_own = [(''Clerk'', \<lparr>u_busy = 0, u_total = 10, u_waiting = []\<rparr>)],
             ru_proto = None\<rparr>)"
  by (simp add: sim_defs expectedLog_def time_clip_def)

text \<open>
  Claim C1, amended. The traversal depends on the condition of a flow only through its
  presence. The rule, for the first flow \<open>f\<close> of the outgoing flows of an activity and
  the number \<open>k\<close> of draws made so far:
  \<^item> when the condition of \<open>f\<close> is absent (null or the empty string), the target of \<open>f\<close>
    is enqueued and no draw is made;
  \<^item> when \<open>f\<close> has a condition, draw \<open>k\<close> is consumed and the target is enqueued exactly
    when the draw is below the probability of \<open>f\<close>, taken as 1 when it is 0.
  Hence two graphs with the same activities and resources whose flows agree, in order,
  on source, target, probability and on whether the condition is absent (which is what
  \<open>flowGate\<close> holds), simulated with the same random draws, produce the same result: the
  same event log and the same utilization totals.
\<close>

theorem condition_presence_only:
  "(map flowGate (ps_flows ps) = map flowGate (ps_flows ps') \<and>
    ps_activities ps = ps_activities ps' \<and> ps_resources ps = ps_resources ps' \<longrightarrow>
      simulateProcess t0 rng ps sc n = simulateProcess t0 rng ps' sc n) \<and>
   (flowGate f = flowGate g \<longleftrightarrow>
      f_from f = f_from g \<and> f_to f = f_to g \<and> f_probability f = f_probability g \<and>
      ((f_condition f = None \<or> f_condition f = Some []) \<longleftrightarrow>
       (f_condition g = None \<or> f_condition g = Some []))) \<and>
   (f_condition f = None \<or> f_condition f = Some [] \<longrightarrow>
      enqueueFlows draws t (f # fs) k =
        (\<lparr>q_activityId = f_to f, q_time = t\<rparr> # fst (enqueueFlows draws t fs k),
         snd (enqueueFlows draws t fs k))) \<and>
   (f_condition f \<noteq> None \<and> f_condition f \<noteq> Some [] \<longrightarrow>
      enqueueFlows draws t (f # fs) k =
        (if draws k < (if f_probability f = 0 then 1 else f_probability f)
         then \<lparr>q_activityId = f_to f, q_time = t\<rparr> # fst (enqueueFlows draws t fs (Suc k))
         else fst (enqueueFlows draws t fs (Suc k)),
         snd (enqueueFlows draws t fs (Suc k))))"
proof -
  have a: "simulateProcess t0 rng ps sc n = simulateProcess t0 rng ps' sc n"
    if "map flowGate (ps_flows ps) = map flowGate (ps_flows ps')"
      "ps_activities ps = ps_activities ps'" "ps_resources ps = ps_resources ps'"
    using that(2,3) by (simp add: simulateProcess_def simulateCases_gate[OF that(1)])
  have b: "flowGate f = flowGate g \<longleftrightarrow>
      f_from f = f_from g \<and> f_to f = f_to g \<and> f_probability f = f_probability g \<and>
      ((f_condition f = None \<or> f_condition f = Some []) \<longleftrightarrow>
       (f_condition g = None \<or> f_condition g = Some []))"
    by (simp add: flowGate_def no_condition_iff)
  from a b enqueueFlows_unconditioned[of f draws t fs k]
    enqueueFlows_conditioned[of f draws t fs k]
  show ?thesis by blast
qed

theorem condition_presence_only_witness:
  "map flowGate (ps_flows (exampleProcess (Some ''approved'') (1 / 2))) =
     map flowGate (ps_flows (exampleProcess (Some ''rejected'') (1 / 2))) \<and>
   ps_activities (exampleProcess (Some ''approved'') (1 / 2)) =
     ps_activities (exampleProcess (Some ''rejected'') (1 / 2)) \<and>
   ps_resources (exampleProcess (Some ''approved'') (1 / 2)) =
     ps_resources (exampleProcess (Some ''rejected'') (1 / 2)) \<and>
   simulateProcess 0 (\<lambda>_. 1 / 4) (exampleProcess (Some ''approved'') (1 / 2)) baseline 2 =
     simulateProcess 0 (\<lambda>_. 1 / 4) (exampleProcess (Some ''rejected'') (1 / 2)) baseline 2 \<and>
   f_condition \<lparr>f_from = ''A1'', f_to = ''A2'', f_condition = Some [], f_probability = 1 / 2\<rparr>
     = Some [] \<and>
   enqueueFlows (\<lambda>_. 3 / 4) 7
     [\<lparr>f_from = ''A1'', f_to = ''A2'', f_condition = Some [], f_probability = 1 / 2\<rparr>] 0
     = ([\<lparr>q_activityId = ''A2'', q_time = 7\<rparr>], 0) \<and>
   f_condition \<lparr>f_from = ''A1'', f_to = ''A2'', f_condition = Some ''approved'',
                f_probability = 0\<rparr> \<noteq> None \<and>
   f_condition \<lparr>f_from = ''A1'', f_to = ''A2'', f_condition = Some ''approved'',
                f_probability = 0\<rparr> \<noteq> Some [] \<and>
   enqueueFlows (\<lambda>_. 3 / 4) 7
     [\<lparr>f_from = ''A1'', f_to = ''A2'', f_condition = Some ''approved'', f_probability = 0\<rparr>] 0
     = ([\<lparr>q_activityId = ''A2'', q_time = 7\<rparr>], 1)"
proof -
  let ?p = "exampleProcess (Some ''approved'') (1 / 2)"
  let ?p' = "exampleProcess (Some ''rejected'') (1 / 2)"
  let ?f = "\<lparr>f_from = ''A1'', f_to = ''A2'', f_condition = Some [], f_probability = 1 / 2\<rparr>"
  let ?g = "\<lparr>f_from = ''A1'', f_to = ''A2'', f_condition = Some ''approved'',
             f_probability = 0\<rparr>"
  have a: "map flowGate (ps_flows ?p) = map flowGate (ps_flows ?p')"
    by (simp add: exampleProcess_def flowGate_def no_condition_def)
  have b: "ps_activities ?p = ps_activities ?p'"
    by (simp add: exampleProcess_def)
  have c: "ps_resources ?p = ps_resources ?p'"
    by (simp add: exampleProcess_def)
  have d: "f_condition ?f = Some []" by simp
  have e: "f_condition ?g \<noteq> None" "f_condition ?g \<noteq> Some []" by simp_all
  note rule = condition_presence_only[where ps = ?p and ps' = ?p' and ?t0.0 = 0
      and rng = "\<lambda>_. 1 / 4" and sc = baseline and n = 2 and draws = "\<lambda>_. 3 / 4" and t = 7
      and fs = "[]" and k = 0]
  from rule[of ?f ?f] a b c
  have s: "simulateProcess 0 (\<lambda>_. 1 / 4) ?p baseline 2 =
           simulateProcess 0 (\<lambda>_. 1 / 4) ?p' baseline 2"
    by blast
  from rule[of ?f ?f] d
  have u: "enqueueFlows (\<lambda>_. 3 / 4) 7 [?f] 0 = ([\<lparr>q_activityId = ''A2'', q_time = 7\<rparr>], 0)"
    by simp
  from rule[of ?g ?g] e
  have v: "enqueueFlows (\<lambda>_. 3 / 4) 7 [?g] 0 = ([\<lparr>q_activityId = ''A2'', q_time = 7\<rparr>], 1)"
    by simp
  from a b c s d u e v show ?thesis by blast
qed

subsection \<open>Metrics of a log without completed cases\<close>

text \<open>
  Claim C2 at the empty log, which \<^verbatim>\<open>simulateProcess\<close> returns for zero instances: the
  metrics are not free of invalid numbers. The averages and the median are NaN, the
  minimum is \<open>+\<infinity>\<close>, the maximum is \<open>-\<infinity>\<close>, and the utilization of the declared role is
  NaN; only the cost total and the case count are zero. The function has no branch for
  an empty list of completed cases.
\<close>

theorem empty_log_metrics:
  "simulateProcess t0 rng (exampleProcess c p) baseline 0 =
     Inr ([], \<lparr>ru_own = [(''Clerk'', \<lparr>u_busy = 0, u_total = 0, u_waiting = []\<rparr>)],
               ru_proto = None\<rparr>) \<and>
   calculatePerformanceMetrics []
       \<lparr>ru_own = [(''Clerk'', \<lparr>u_busy = 0, u_total = 0, u_waiting = []\<rparr>)], ru_proto = None\<rparr>
       (exampleProcess c p) =
     (Inr \<lparr>throughput = \<lparr>t_avg = NaN, t_min = PInf, t_max = NInf, t_median = NaN\<rparr>,
           cost = \<lparr>c_avg = NaN, c_total = Fin 0\<rparr>,
           waitingTime = [],
           utilization = [(''Clerk'', NaN)],
           casesCompleted = 0\<rparr>,
      [])"
  by (simp add: sim_defs metric_defs)

subsection \<open>Scenario overrides\<close>

text \<open>
  Claim C3 at an override of zero: the scenario sets the cost and the resource units of
  \<open>A1\<close> to 0, and \<^verbatim>\<open>applyScenarioModifications\<close> returns \<open>A1\<close> unchanged, with cost 5 and
  one resource unit, because \<^verbatim>\<open>mod.cost || activity.cost\<close> takes a zero for an absent
  field.
\<close>

theorem zero_override_ignored:
  "applyScenarioModifications [exampleA1] (Some zeroCost) = [exampleA1] \<and>
   a_cost exampleA1 = 5 \<and> a_resources exampleA1 = 1"
  by (simp add: applyScenarioModifications_def zeroCost_def exampleA1_def
      findModification_def applyModification_def opt_num_or_def num_or_def)

subsection \<open>The empty activity list\<close>

text \<open>
  Claim C4, as stated, fails in the kind of the failure: the code has no validation
  step, and the run of one instance over an empty activity list fails with the
  \<^verbatim>\<open>TypeError\<close> that reading \<^verbatim>\<open>activities[0].id\<close> raises, not with a \<open>ValidationError\<close>.
\<close>

theorem empty_activities_error_kind:
  "ps_activities emptyProcess = [] \<and>
   simulateProcess 0 (\<lambda>_. 0) emptyProcess baseline 1 = Inl (TypeError, emptyState) \<and>
   simulateProcess 0 (\<lambda>_. 0) emptyProcess baseline 1 \<noteq> Inl (ValidationError, emptyState)"
  by (simp add: sim_defs emptyProcess_def emptyState_def upto_rec1)

text \<open>
  Claim C4, amended. If the activity list is empty, the simulation of a positive number
  of instances fails fast, before any simulation step runs: the failure is raised at
  the entry-point read of the first case, and the state at the throw is the initial
  state, in which no event is emitted, no random draw is made, no activity is visited
  and the utilization accumulator is as initialised. The failure is the \<^verbatim>\<open>TypeError\<close> of
  the runtime, not a \<open>ValidationError\<close>.
\<close>

theorem empty_activities_abort:
  assumes "ps_activities ps = []" and "1 \<le> n"
  shows "simulateProcess t0 rng ps sc n =
           Inl (TypeError,
                \<lparr>s_events = [], s_resourceUtil = initResourceUtilization (ps_resources ps),
                 s_visited = {}, s_draws = 0\<rparr>)"
proof -
  from assms(2) have "[1..n] = 1 # [2..n]" by (simp add: upto_rec1)
  with assms(1) show ?thesis
    by (simp add: simulateProcess_def applyScenarioModifications_Nil simulateCase_def)
qed

theorem empty_activities_abort_witness:
  "ps_activities emptyProcess = [] \<and> (1::int) \<le> 3 \<and>
   simulateProcess 0 (\<lambda>_. 0) emptyProcess baseline 3 =
     Inl (TypeError,
          \<lparr>s_events = [], s_resourceUtil = initResourceUtilization (ps_resources emptyProcess),
           s_visited = {}, s_draws = 0\<rparr>)"
proof -
  have h: "ps_activities emptyProcess = []" by (simp add: emptyProcess_def)
  have k: "(1::int) \<le> 3" by simp
  from empty_activities_abort[OF h k, of 0 "\<lambda>_. 0" baseline] h k show ?thesis by blast
qed

subsection \<open>Termination of the worklist loop\<close>




subsection \<open>The completed-case count\<close>

text \<open>
  Claim C8 at a log of one start event: \<^verbatim>\<open>casesCompleted\<close> is 1, although no case has both
  a start and a complete event and the list of completed cases that the throughput is
  computed from is empty. The field is \<^verbatim>\<open>Object.keys(cases).length\<close>, the number of case
  ids in the log.
\<close>

theorem start_only_counted:
  "(\<exists>m. fst (calculatePerformanceMetrics startOnlyLog u ps) = Inr m \<and> casesCompleted m = 1) \<and>
   casesWithStartAndEnd startOnlyLog = 0 \<and>
   completedCases (buildCases startOnlyLog) = []"
  by (simp add: metric_defs startOnlyLog_def casesWithStartAndEnd_def)

subsection \<open>The event log after the metrics\<close>

text \<open>
  Claim C9 at the log of two cases of the example process: \<^verbatim>\<open>simulateProcess\<close> emits the
  four events of case 1 and then the four events of case 2, and after
  \<^verbatim>\<open>calculatePerformanceMetrics\<close> the array of the caller is sorted by time stamp, with the
  events of the two cases interleaved.
\<close>

theorem metrics_reorder_log:
  "(case simulateProcess 0 rng (exampleProcess None 1) baseline 2 of
      Inl _ \<Rightarrow> False
    | Inr (evs, u) \<Rightarrow>
        map e_caseId evs = [1, 1, 1, 1, 2, 2, 2, 2] \<and>
        map e_caseId (snd (calculatePerformanceMetrics evs u (exampleProcess None 1)))
          = [1, 2, 1, 1, 2, 2, 1, 2] \<and>
        snd (calculatePerformanceMetrics evs u (exampleProcess None 1)) \<noteq> evs)"
  by (simp add: sim_defs metric_defs upto_rec1 time_clip_def split: sum.splits)

subsection \<open>Single visit\<close>

text \<open>
  Claim C6. For every process graph, scenario, random stream and instance count, the
  event log of a simulation run contains, for every case id \<open>c\<close> and every activity id
  \<open>a\<close>, at most one start event of \<open>a\<close> in case \<open>c\<close>, whether or not \<open>a\<close> is the target
  of several flows or lies on a cycle.
\<close>

theorem single_visit:
  assumes "simulateProcess t0 rng ps sc n = Inr (evs, u)"
  shows "length (filter (\<lambda>e. e_caseId e = c \<and> e_event e = Start \<and> e_activityId e = a) evs) \<le> 1"
proof -
  from assms obtain st' where
    run: "simulateCases (applyScenarioModifications (ps_activities ps) (sc_modifications sc))
            (ps_flows ps) t0 rng [1..n]
            \<lparr>s_events = [], s_resourceUtil = initResourceUtilization (ps_resources ps),
             s_visited = {}, s_draws = 0\<rparr> = Inr st'"
    and evs: "evs = s_events st'"
    by (auto simp: simulateProcess_def Let_def split: sum.splits)
  from simulateCases_single_visit[OF run] have d: "distinct (startIds c evs)"
    by (simp add: evs startIds_def)
  have "filter (\<lambda>e. e_caseId e = c \<and> e_event e = Start \<and> e_activityId e = a) evs
          = filter (\<lambda>e. e_activityId e = a) (filter (\<lambda>e. e_caseId e = c \<and> e_event e = Start) evs)"
    by (simp add: conj_commute conj_left_commute)
  then have "length (filter (\<lambda>e. e_caseId e = c \<and> e_event e = Start \<and> e_activityId e = a) evs)
          = length (filter (\<lambda>x. x = a) (startIds c evs))"
    by (simp add: startIds_def filter_map comp_def)
  also have "\<dots> \<le> 1"
    using d by (simp add: distinct_length_filter card_le_Suc0_iff_eq)
  finally show ?thesis .
qed

theorem single_visit_witness:
  "simulateProcess 0 (\<lambda>_. 1 / 2) cyclicProcess baseline 1 =
     Inr (expectedLog 0,
          \<lparr>ru_own = [(''Clerk'', \<lparr>u_busy = 0, u_total = 15, u_waiting = []\<rparr>)],
           ru_proto = None\<rparr>) \<and>
   length (filter (\<lambda>e. e_caseId e = 1 \<and> e_event e = Start \<and> e_activityId e = ''A2'')
             (expectedLog 0)) \<le> 1"
proof -
  have h: "simulateProcess 0 (\<lambda>_. 1 / 2) cyclicProcess baseline 1 =
     Inr (expectedLog 0,
          \<lparr>ru_own = [(''Clerk'', \<lparr>u_busy = 0, u_total = 15, u_waiting = []\<rparr>)],
           ru_proto = None\<rparr>)"
    by (simp add: sim_defs cyclicProcess_def expectedLog_def time_clip_def)
  from single_visit[OF h, of 1 "''A2''"] h show ?thesis by blast
qed

subsection \<open>Utilization and declared roles\<close>




end
